theory Spec2Isabelle
  imports Complex_Main "HOL-Library.Sublist"
begin

section \<open>Rapid response agent system: the scoring and routing core\<close>

text \<open>
  A shallow embedding of \<^verbatim>\<open>src/rapid_response_system.py\<close>. Python's unbounded
  integers are \<open>int\<close>, its strings are \<open>string\<close> (lists of byte characters, so
  the embedding covers ASCII text), a dictionary built from a literal with fixed keys is
  a record, and \<open>None\<close> is \<open>None\<close>.

  The program reads two clocks. \<^verbatim>\<open>datetime.now()\<close> has microsecond resolution and
  is modelled as an \<open>int\<close> counting microseconds; \<^verbatim>\<open>time.time()\<close> is a
  floating-point number of seconds and is modelled by the same count of microseconds
  (the number of seconds is the count divided by one million). Every clock read of the
  source is an explicit argument of the function that performs it, in the order the
  source reads them. Divisions of durations are exact (rational), not rounded: a
  difference of whole microseconds that is not 6 hours is at least one microsecond away
  from it, far more than the rounding of a double at this magnitude, so the comparison
  with 6 comes out the same.

  The console narration (\<^verbatim>\<open>print\<close>) changes no value and no object and is left
  out. A method whose name starts with an underscore loses the underscore.
\<close>

subsection \<open>Python primitives\<close>

type_synonym datetime = int

definition hours :: "int \<Rightarrow> int" where
  "hours n = n * 3600 * 1000000"

definition minutes :: "int \<Rightarrow> int" where
  "minutes n = n * 60 * 1000000"

text \<open>\<^verbatim>\<open>timedelta.total_seconds()\<close> of a difference given in microseconds.\<close>

definition total_seconds :: "int \<Rightarrow> rat" where
  "total_seconds d = of_int d / 1000000"

text \<open>
  \<^verbatim>\<open>int(time.time())\<close>: the whole seconds of a clock reading given in
  microseconds, truncated towards zero.
\<close>

definition int_time :: "int \<Rightarrow> int" where
  "int_time t = (if 0 \<le> t then t div 1000000 else - ((- t) div 1000000))"

text \<open>The decimal rendering of an integer inside an f-string.\<close>

definition digit_char :: "int \<Rightarrow> char" where
  "digit_char d = ''0123456789'' ! nat d"

function str_digits :: "int \<Rightarrow> string" where
  "str_digits n =
     (if n < 10 then [digit_char n] else str_digits (n div 10) @ [digit_char (n mod 10)])"
  by pat_completeness auto
termination
  by (relation "measure nat") auto

declare str_digits.simps [simp del]

definition str_int :: "int \<Rightarrow> string" where
  "str_int i = (if i < 0 then CHR ''-'' # str_digits (- i) else str_digits i)"

text \<open>\<^verbatim>\<open>str.lower()\<close> on ASCII text.\<close>

definition lower_table :: "(char \<times> char) list" where
  "lower_table = zip ''ABCDEFGHIJKLMNOPQRSTUVWXYZ'' ''abcdefghijklmnopqrstuvwxyz''"

definition lower_char :: "char \<Rightarrow> char" where
  "lower_char c = (case map_of lower_table c of Some l \<Rightarrow> l | None \<Rightarrow> c)"

definition lower :: "string \<Rightarrow> string" where
  "lower s = map lower_char s"

text \<open>\<^verbatim>\<open>keyword in text\<close>: the keyword occurs as a contiguous piece of the text.\<close>

fun starts_with :: "string \<Rightarrow> string \<Rightarrow> bool" where
  "starts_with [] s = True"
| "starts_with (k # ks) [] = False"
| "starts_with (k # ks) (c # cs) = (k = c \<and> starts_with ks cs)"

fun contains :: "string \<Rightarrow> string \<Rightarrow> bool" where
  "contains k [] = (k = [])"
| "contains k (c # cs) = (starts_with k (c # cs) \<or> contains k cs)"

subsection \<open>Issue and MAIScore\<close>

record MAIScore =
  mission_alignment :: int
  impact_growth :: int
  risk_evaluation :: int
  total_score :: int

definition MAIScore_init :: "int \<Rightarrow> int \<Rightarrow> int \<Rightarrow> MAIScore" where
  "MAIScore_init m i r =
     \<lparr>mission_alignment = m, impact_growth = i, risk_evaluation = r, total_score = m + i + r\<rparr>"

definition get_recommendation :: "MAIScore \<Rightarrow> string" where
  "get_recommendation self =
     (if total_score self \<ge> 30 then ''TIER_2_HUMAN_REVIEW''
      else if total_score self \<ge> 15 then ''ENHANCED_MONITORING''
      else ''DOCUMENTATION_ONLY'')"

text \<open>
  An Issue. The field \<^verbatim>\<open>id\<close> is named \<open>id'\<close> here. The constructor reads
  \<^verbatim>\<open>time.time()\<close> and then \<^verbatim>\<open>datetime.now()\<close>. A caller that leaves the
  urgency out passes \<^verbatim>\<open>"medium"\<close>.
\<close>

record Issue =
  id' :: string
  title :: string
  content :: string
  source :: string
  urgency :: string
  timestamp :: datetime
  mai_score :: "MAIScore option"
  status :: string

definition Issue_init :: "string \<Rightarrow> string \<Rightarrow> string \<Rightarrow> string \<Rightarrow> int \<Rightarrow> datetime \<Rightarrow> Issue" where
  "Issue_init title_arg content_arg source_arg urgency_arg time_time now =
     \<lparr>id' = ''issue_'' @ str_int (int_time time_time),
      title = title_arg,
      content = content_arg,
      source = source_arg,
      urgency = urgency_arg,
      timestamp = now,
      mai_score = None,
      status = ''detected''\<rparr>"

subsection \<open>The scoring agent\<close>

text \<open>
  The text-scoring collaborator (\<^verbatim>\<open>self.model.generate_content\<close>) is not part of
  the repository. The outcome of each call is an input of the scoring function:
  \<open>Some text\<close> when the call returns and \<^verbatim>\<open>response.text\<close> is \<open>text\<close>,
  \<open>None\<close> when the call or the access to its text raises. The prompt only travels to
  the collaborator and is not built.
\<close>

text \<open>
  The ASCII characters that \<^verbatim>\<open>strip\<close> and \<^verbatim>\<open>split\<close> treat as white space:
  tab, line feed, vertical tab, form feed, carriage return, the four separators and the
  space.
\<close>

definition is_space :: "char \<Rightarrow> bool" where
  "is_space c =
     (c \<in> set [CHR 0x09, CHR 0x0A, CHR 0x0B, CHR 0x0C, CHR 0x0D,
                CHR 0x1C, CHR 0x1D, CHR 0x1E, CHR 0x1F, CHR 0x20])"

text \<open>\<^verbatim>\<open>text.strip().split()[0]\<close>; \<open>None\<close> is the IndexError of an empty split.\<close>

definition first_token :: "string \<Rightarrow> string option" where
  "first_token s =
     (case takeWhile (\<lambda>c. \<not> is_space c) (dropWhile is_space s) of
        [] \<Rightarrow> None
      | c # cs \<Rightarrow> Some (c # cs))"

definition digit_val :: "char \<Rightarrow> int option" where
  "digit_val c = map_of (zip ''0123456789'' [0, 1, 2, 3, 4, 5, 6, 7, 8, 9]) c"

text \<open>
  \<^verbatim>\<open>int(token)\<close> in base ten: an optional sign, then decimal digits, where single
  underscores may stand between digits. \<open>None\<close> is the ValueError. The flag of
  \<open>digits_from\<close> says whether the character before was a digit. The limit that
  newer interpreters put on the number of digits (4300 by default, a ValueError beyond
  it) is not modelled: such a token is parsed here and clamped to 15, where the
  interpreter takes the fallback.
\<close>

fun digits_from :: "bool \<Rightarrow> int \<Rightarrow> string \<Rightarrow> int option" where
  "digits_from prev acc [] = (if prev then Some acc else None)"
| "digits_from prev acc (c # cs) =
     (case digit_val c of
        Some d \<Rightarrow> digits_from True (10 * acc + d) cs
      | None \<Rightarrow> if c = CHR ''_'' \<and> prev then digits_from False acc cs else None)"

definition int_str :: "string \<Rightarrow> int option" where
  "int_str s =
     (case s of
        [] \<Rightarrow> None
      | c # cs \<Rightarrow>
          if c = CHR ''-'' then map_option uminus (digits_from False 0 cs)
          else if c = CHR ''+'' then digits_from False 0 cs
          else digits_from False 0 (c # cs))"

text \<open>
  The body of the three \<^verbatim>\<open>try\<close> blocks: the clamped score, or \<open>None\<close> when
  anything in the block raises.
\<close>

definition try_score :: "string option \<Rightarrow> int option" where
  "try_score reply =
     (case reply of
        None \<Rightarrow> None
      | Some text_of_response \<Rightarrow>
          (case first_token text_of_response of
             None \<Rightarrow> None
           | Some tok \<Rightarrow>
               (case int_str tok of
                  None \<Rightarrow> None
                | Some score \<Rightarrow> Some (min (max score 0) 15))))"

definition mission_keywords :: "string list" where
  "mission_keywords = [''privacy'', ''security'', ''rights'', ''accessibility'', ''ethics'']"

definition fallback_mission_score :: "Issue \<Rightarrow> int" where
  "fallback_mission_score issue =
     (let content_lower = lower (title issue @ '' '' @ content issue);
          matches = int (length (filter (\<lambda>keyword. contains keyword content_lower) mission_keywords))
      in min (matches * 3) 15)"

definition urgency_scores :: "string \<rightharpoonup> int" where
  "urgency_scores = map_of [(''low'', 5), (''medium'', 10), (''high'', 15)]"

definition fallback_impact_score :: "Issue \<Rightarrow> int" where
  "fallback_impact_score issue =
     (case urgency_scores (urgency issue) of Some v \<Rightarrow> v | None \<Rightarrow> 10)"

definition fallback_risk_score :: "Issue \<Rightarrow> int" where
  "fallback_risk_score issue = 8"

definition score_mission_alignment :: "Issue \<Rightarrow> string option \<Rightarrow> int" where
  "score_mission_alignment issue reply =
     (case try_score reply of Some score \<Rightarrow> score | None \<Rightarrow> fallback_mission_score issue)"

definition score_impact_growth :: "Issue \<Rightarrow> string option \<Rightarrow> int" where
  "score_impact_growth issue reply =
     (case try_score reply of Some score \<Rightarrow> score | None \<Rightarrow> fallback_impact_score issue)"

definition score_risk_evaluation :: "Issue \<Rightarrow> string option \<Rightarrow> int" where
  "score_risk_evaluation issue reply =
     (case try_score reply of Some score \<Rightarrow> score | None \<Rightarrow> fallback_risk_score issue)"

record manifesto_dict =
  core_principles :: "string list"
  strategic_priorities :: "string list"

record breakdown_dict =
  mission :: int
  impact :: int
  risk :: int

record history_entry =
  h_issue_id :: string
  h_timestamp :: datetime
  h_mai_score :: int
  breakdown :: breakdown_dict

record MAIScoringAgent =
  manifesto :: manifesto_dict
  decision_history :: "history_entry list"

text \<open>The constructor of the agent, without the configuration of the collaborator.\<close>

definition MAIScoringAgent_init :: "manifesto_dict \<Rightarrow> MAIScoringAgent" where
  "MAIScoringAgent_init manifesto_arg = \<lparr>manifesto = manifesto_arg, decision_history = []\<rparr>"

definition SAMPLE_MANIFESTO :: manifesto_dict where
  "SAMPLE_MANIFESTO =
     \<lparr>core_principles =
        [''Digital privacy and security'',
         ''Open and accessible technology'',
         ''User empowerment and education'',
         ''Inclusive digital rights''],
      strategic_priorities =
        [''Privacy protection'',
         ''Platform accountability'',
         ''Digital literacy'',
         ''Ethical AI development'']\<rparr>"

text \<open>
  \<^verbatim>\<open>calculate_full_mai_score\<close> receives the issue by reference and appends to the
  agent's history. The result is the returned score, the agent after the call and the
  issue object after the call. The three replies are the outcomes of the three calls of
  the collaborator, in order; \<open>now\<close> is the clock read for the history entry.
\<close>

definition calculate_full_mai_score ::
  "MAIScoringAgent \<Rightarrow> Issue \<Rightarrow> string option \<Rightarrow> string option \<Rightarrow> string option \<Rightarrow> datetime
     \<Rightarrow> MAIScore \<times> MAIScoringAgent \<times> Issue" where
  "calculate_full_mai_score self issue reply_mission reply_impact reply_risk now =
     (let mission_score = score_mission_alignment issue reply_mission;
          impact_score = score_impact_growth issue reply_impact;
          risk_score = score_risk_evaluation issue reply_risk;
          mai = MAIScore_init mission_score impact_score risk_score;
          entry = \<lparr>h_issue_id = id' issue,
                   h_timestamp = now,
                   h_mai_score = total_score mai,
                   breakdown = \<lparr>mission = mission_score, impact = impact_score, risk = risk_score\<rparr>\<rparr>
      in (mai, self\<lparr>decision_history := decision_history self @ [entry]\<rparr>, issue))"

subsection \<open>The monitor agent\<close>

text \<open>
  \<^verbatim>\<open>simulate_web_monitoring\<close> creates an Issue for every relevant sample, in a
  loop. Each creation reads the system clock twice (\<^verbatim>\<open>time.time()\<close>, then
  \<^verbatim>\<open>datetime.now()\<close>); \<open>clock k\<close> is the clock's reading, in microseconds, at
  the \<open>k\<close>-th read of the loop.
\<close>

record issue_data =
  d_title :: string
  d_content :: string
  d_source :: string
  d_urgency :: string

definition monitor_keywords :: "string list" where
  "monitor_keywords =
     [''privacy breach'', ''security vulnerability'', ''data leak'',
      ''ai ethics'', ''platform accountability'', ''digital rights'',
      ''accessibility'', ''open source'', ''regulation'']"

definition sample_issues :: "issue_data list" where
  "sample_issues =
     [\<lparr>d_title = ''Major social media platform changes privacy policy without user notice'',
       d_content = ''Platform updated terms to allow broader data sharing with third parties, affecting 2 billion users globally.'',
       d_source = ''Privacy Watch Blog'',
       d_urgency = ''high''\<rparr>,
      \<lparr>d_title = ''New AI model shows concerning bias in hiring recommendations'',
       d_content = ''Research reveals AI hiring tool consistently recommends male candidates over equally qualified female candidates.'',
       d_source = ''AI Ethics Journal'',
       d_urgency = ''medium''\<rparr>,
      \<lparr>d_title = ''Government proposes new internet regulation framework'',
       d_content = ''Proposed legislation would require platforms to implement content filtering, raising free expression concerns.'',
       d_source = ''Tech Policy News'',
       d_urgency = ''medium''\<rparr>]"

definition is_relevant_issue :: "issue_data \<Rightarrow> bool" where
  "is_relevant_issue d =
     (let text_lower = lower (d_title d @ '' '' @ d_content d);
          keyword_matches = length (filter (\<lambda>keyword. contains keyword text_lower) monitor_keywords);
          is_urgent = (d_urgency d \<in> set [''medium'', ''high''])
      in keyword_matches > 0 \<or> is_urgent)"

fun monitor_loop :: "(nat \<Rightarrow> int) \<Rightarrow> nat \<Rightarrow> issue_data list \<Rightarrow> Issue list" where
  "monitor_loop clock k [] = []"
| "monitor_loop clock k (d # ds) =
     (if is_relevant_issue d then
        Issue_init (d_title d) (d_content d) (d_source d) (d_urgency d) (clock k) (clock (k + 1))
          # monitor_loop clock (k + 2) ds
      else monitor_loop clock k ds)"

definition simulate_web_monitoring :: "(nat \<Rightarrow> int) \<Rightarrow> Issue list" where
  "simulate_web_monitoring clock = monitor_loop clock 0 sample_issues"

subsection \<open>The conflict resolution agent\<close>

text \<open>
  The scheduled item is a dictionary; \<^verbatim>\<open>content.get('priority')\<close> is \<open>None\<close> when
  the key is absent, so the field is optional.
\<close>

record scheduled_content =
  sc_type :: string
  sc_title :: string
  scheduled_time :: datetime
  priority :: "string option"

record conflict =
  conflict_id :: string
  new_issue :: Issue
  conflicting_content :: scheduled_content
  severity :: string
  detected_at :: datetime

text \<open>
  The local variable \<^verbatim>\<open>severity_score\<close> of \<^verbatim>\<open>_assess_conflict_severity\<close> at
  the return statement, after its two conditional increments.
\<close>

definition severity_score :: "Issue \<Rightarrow> scheduled_content \<Rightarrow> int" where
  "severity_score issue sched =
     (let s0 = 0;
          s1 = (if priority sched = Some ''high'' then s0 + 2 else s0);
          s2 = (if urgency issue = ''high'' then s1 + 3 else s1)
      in s2)"

definition assess_conflict_severity :: "Issue \<Rightarrow> scheduled_content \<Rightarrow> string" where
  "assess_conflict_severity issue sched =
     (if severity_score issue sched \<ge> 4 then ''CRITICAL'' else ''MODERATE'')"

text \<open>The scheduled item that \<^verbatim>\<open>detect_channel_conflict\<close> simulates, built at clock \<open>now\<close>.\<close>

definition simulated_schedule :: "datetime \<Rightarrow> scheduled_content" where
  "simulated_schedule now =
     \<lparr>sc_type = ''fundraising_email'',
      sc_title = ''Year-end Giving Campaign'',
      scheduled_time = now + hours 2,
      priority = Some ''high''\<rparr>"

definition time_diff :: "scheduled_content \<Rightarrow> datetime \<Rightarrow> rat" where
  "time_diff sched now = \<bar>total_seconds (scheduled_time sched - now) / 3600\<bar>"

text \<open>
  The part of \<^verbatim>\<open>detect_channel_conflict\<close> after the scheduled item is built, with
  the scheduled item as an argument. It reads \<^verbatim>\<open>datetime.now()\<close> for the
  difference, \<^verbatim>\<open>time.time()\<close> for the identifier and \<^verbatim>\<open>datetime.now()\<close> for
  the detection time. \<open>None\<close> is the \<^verbatim>\<open>return None\<close> of the source.
\<close>

definition conflict_with ::
  "scheduled_content \<Rightarrow> Issue \<Rightarrow> datetime \<Rightarrow> int \<Rightarrow> datetime \<Rightarrow> conflict option" where
  "conflict_with sched issue now time_time now_detected =
     (if time_diff sched now < 6 then
        Some \<lparr>conflict_id = ''conflict_'' @ str_int (int_time time_time),
              new_issue = issue,
              conflicting_content = sched,
              severity = assess_conflict_severity issue sched,
              detected_at = now_detected\<rparr>
      else None)"

definition detect_channel_conflict ::
  "Issue \<Rightarrow> datetime \<Rightarrow> datetime \<Rightarrow> int \<Rightarrow> datetime \<Rightarrow> conflict option" where
  "detect_channel_conflict issue now_scheduled now time_time now_detected =
     conflict_with (simulated_schedule now_scheduled) issue now time_time now_detected"

record decision_dict =
  action :: string
  rationale :: string

record resolution =
  res_conflict_id :: string
  resolution_time :: datetime
  decision :: decision_dict

definition execute_lightning_protocol :: "conflict \<Rightarrow> datetime \<Rightarrow> resolution" where
  "execute_lightning_protocol c now =
     (let d = (if severity c = ''CRITICAL'' then
                 \<lparr>action = ''SEGMENT_AND_STAGGER'',
                  rationale = ''High-priority issue requires immediate response with audience segmentation.''\<rparr>
               else
                 \<lparr>action = ''DELAY_SECONDARY'',
                  rationale = ''Delay scheduled content to avoid message collision.''\<rparr>)
      in \<lparr>res_conflict_id = conflict_id c, resolution_time = now, decision = d\<rparr>)"

subsection \<open>The decision support agent\<close>

definition determine_priority :: "MAIScore \<Rightarrow> Issue \<Rightarrow> string" where
  "determine_priority mai issue =
     (if total_score mai \<ge> 35 \<and> urgency issue = ''high'' then ''P0 - CRITICAL''
      else if total_score mai \<ge> 25 \<or> urgency issue = ''high'' then ''P1 - HIGH''
      else if total_score mai \<ge> 15 then ''P2 - MEDIUM''
      else ''P3 - LOW'')"

definition estimate_response_time :: "string \<Rightarrow> string \<Rightarrow> string" where
  "estimate_response_time routing_arg urgency_arg =
     (if routing_arg = ''TIER_2_HUMAN_REVIEW'' then
        (if urgency_arg = ''high'' then ''2-4 hours'' else ''4-8 hours'')
      else if routing_arg = ''ENHANCED_MONITORING'' then ''8-24 hours''
      else ''24-48 hours'')"

record routing_decision =
  rd_issue_id :: string
  rd_mai_score :: int
  routing :: string
  priority_level :: string
  estimated_response_time :: string
  decision_timestamp :: datetime

definition route_issue :: "Issue \<Rightarrow> MAIScore \<Rightarrow> datetime \<Rightarrow> routing_decision" where
  "route_issue issue mai now =
     (let recommendation = get_recommendation mai
      in \<lparr>rd_issue_id = id' issue,
          rd_mai_score = total_score mai,
          routing = recommendation,
          priority_level = determine_priority mai issue,
          estimated_response_time = estimate_response_time recommendation (urgency issue),
          decision_timestamp = now\<rparr>)"

subsection \<open>Orders and notions used by the statements\<close>

text \<open>
  The order of the recommendation tiers, from the least to the most demanding response;
  a string that is no tier has no rank.
\<close>

definition tier_rank :: "string \<Rightarrow> nat option" where
  "tier_rank t =
     map_of [(''DOCUMENTATION_ONLY'', 0), (''ENHANCED_MONITORING'', 1), (''TIER_2_HUMAN_REVIEW'', 2)] t"

text \<open>
  The keywords of the mission fallback that occur in the issue's title and content,
  ignoring the case of letters: the keyword is a contiguous piece of the lowered text.
\<close>

definition keyword_hits :: "Issue \<Rightarrow> string set" where
  "keyword_hits issue =
     {k \<in> set mission_keywords. sublist k (lower (title issue @ '' '' @ content issue))}"

subsection \<open>Example inputs\<close>

text \<open>
  An issue that mentions privacy and security, in mixed letter case, with a chosen
  urgency, created at 1700000000.7 seconds; and an agent fresh from its constructor.
\<close>

definition example_issue :: "string \<Rightarrow> Issue" where
  "example_issue urgency_arg =
     Issue_init ''Privacy alert'' ''A SECURITY patch'' ''blog'' urgency_arg
       1700000000700000 1700000000700100"

definition example_agent :: MAIScoringAgent where
  "example_agent = MAIScoringAgent_init SAMPLE_MANIFESTO"

section \<open>Properties\<close>

subsection \<open>Helper lemmas\<close>

lemma try_score_range: "try_score reply = Some v \<Longrightarrow> 0 \<le> v \<and> v \<le> 15"
  by (auto simp: try_score_def split: option.splits)

lemma fallback_mission_score_range:
  "0 \<le> fallback_mission_score issue \<and> fallback_mission_score issue \<le> 15"
  by (simp add: fallback_mission_score_def Let_def)

lemma fallback_impact_score_cases:
  "fallback_impact_score issue =
     (if urgency issue = ''low'' then 5 else if urgency issue = ''high'' then 15 else 10)"
  by (simp add: fallback_impact_score_def urgency_scores_def)

lemma score_mission_alignment_range:
  "0 \<le> score_mission_alignment issue reply \<and> score_mission_alignment issue reply \<le> 15"
proof (cases "try_score reply")
  case None
  then show ?thesis
    using fallback_mission_score_range [of issue] by (simp add: score_mission_alignment_def)
next
  case (Some v)
  then show ?thesis
    using try_score_range [of reply v] by (simp add: score_mission_alignment_def)
qed

lemma score_impact_growth_range:
  "0 \<le> score_impact_growth issue reply \<and> score_impact_growth issue reply \<le> 15"
proof (cases "try_score reply")
  case None
  then show ?thesis
    by (simp add: score_impact_growth_def fallback_impact_score_cases)
next
  case (Some v)
  then show ?thesis
    using try_score_range [of reply v] by (simp add: score_impact_growth_def)
qed

lemma score_risk_evaluation_range:
  "0 \<le> score_risk_evaluation issue reply \<and> score_risk_evaluation issue reply \<le> 15"
proof (cases "try_score reply")
  case None
  then show ?thesis
    by (simp add: score_risk_evaluation_def fallback_risk_score_def)
next
  case (Some v)
  then show ?thesis
    using try_score_range [of reply v] by (simp add: score_risk_evaluation_def)
qed

lemma starts_with_prefix: "starts_with k s \<longleftrightarrow> prefix k s"
  by (induction k s rule: starts_with.induct) auto

lemma contains_sublist: "contains k s \<longleftrightarrow> sublist k s"
  by (induction s) (auto simp: starts_with_prefix sublist_Cons_right)

lemma keyword_hits_filter:
  "keyword_hits issue =
     set (filter (\<lambda>k. contains k (lower (title issue @ '' '' @ content issue))) mission_keywords)"
  by (auto simp: keyword_hits_def contains_sublist)

lemma distinct_mission_keywords: "distinct mission_keywords"
  by (simp add: mission_keywords_def)

lemma fallback_mission_score_hits:
  "fallback_mission_score issue = min (3 * int (card (keyword_hits issue))) 15"
proof -
  have "card (keyword_hits issue)
      = length (filter (\<lambda>k. contains k (lower (title issue @ '' '' @ content issue))) mission_keywords)"
    unfolding keyword_hits_filter
    by (rule distinct_card) (simp add: distinct_mission_keywords)
  then show ?thesis
    by (simp add: fallback_mission_score_def Let_def mult.commute)
qed

lemma time_diff_less_6:
  "time_diff sched now < 6 \<longleftrightarrow> \<bar>scheduled_time sched - now\<bar> < hours 6"
proof -
  let ?d = "scheduled_time sched - now"
  have "time_diff sched now = of_int \<bar>?d\<bar> / 3600000000"
    by (simp add: time_diff_def total_seconds_def abs_divide)
  also have "\<dots> < 6 \<longleftrightarrow> (of_int \<bar>?d\<bar> :: rat) < of_int 21600000000"
    by (simp add: divide_less_eq)
  also have "\<dots> \<longleftrightarrow> \<bar>?d\<bar> < 21600000000"
    by (simp only: of_int_less_iff)
  finally show ?thesis
    by (simp add: hours_def)
qed

lemma conflict_with_None:
  "conflict_with sched issue now tt nd = None \<longleftrightarrow> \<not> \<bar>scheduled_time sched - now\<bar> < hours 6"
  by (simp add: conflict_with_def time_diff_less_6)

lemma severity_score_eq:
  "severity_score issue sched
     = (if priority sched = Some ''high'' then 2 else 0) + (if urgency issue = ''high'' then 3 else 0)"
  by (simp add: severity_score_def)

lemma str_1700000000: "str_int 1700000000 = ''1700000000''"
  by (simp add: str_int_def str_digits.simps digit_char_def)

lemma urgency_example_issue: "urgency (example_issue u) = u"
  by (simp add: example_issue_def Issue_init_def)

lemma keyword_hits_example_issue: "keyword_hits (example_issue u) = {''privacy'', ''security''}"
  by (simp add: keyword_hits_filter example_issue_def Issue_init_def mission_keywords_def
      lower_def lower_char_def lower_table_def)

lemma try_score_failures:
  "try_score None = None" "try_score (Some ''n/a'') = None" "try_score (Some '' '') = None"
  by (simp_all add: try_score_def first_token_def is_space_def int_str_def digit_val_def)

subsection \<open>The recommendation tier\<close>

text \<open>
  C1. For every MAIScore, \<^verbatim>\<open>get_recommendation\<close> is a step function of
  \<open>total_score\<close> alone: it returns the tier-2 human review tier exactly when the total
  is at least 30, the enhanced monitoring tier exactly when the total is at least 15 and
  below 30, and the documentation-only tier exactly when the total is below 15. Two
  scores with the same total get the same tier, a larger total never gets a lower tier,
  and the totals 0, 14, 15, 29, 30 and 45 get documentation only, documentation only,
  enhanced monitoring, enhanced monitoring, tier-2 human review and tier-2 human review.
\<close>

theorem get_recommendation_step:
  "(get_recommendation s = ''TIER_2_HUMAN_REVIEW'' \<longleftrightarrow> total_score s \<ge> 30)
   \<and> (get_recommendation s = ''ENHANCED_MONITORING'' \<longleftrightarrow> 15 \<le> total_score s \<and> total_score s < 30)
   \<and> (get_recommendation s = ''DOCUMENTATION_ONLY'' \<longleftrightarrow> total_score s < 15)
   \<and> (\<forall>s'. total_score s = total_score s' \<longrightarrow> get_recommendation s = get_recommendation s')
   \<and> (\<forall>s'. total_score s \<le> total_score s' \<longrightarrow>
          (\<exists>r r'. tier_rank (get_recommendation s) = Some r
                 \<and> tier_rank (get_recommendation s') = Some r' \<and> r \<le> r'))
   \<and> get_recommendation (s\<lparr>total_score := 0\<rparr>) = ''DOCUMENTATION_ONLY''
   \<and> get_recommendation (s\<lparr>total_score := 14\<rparr>) = ''DOCUMENTATION_ONLY''
   \<and> get_recommendation (s\<lparr>total_score := 15\<rparr>) = ''ENHANCED_MONITORING''
   \<and> get_recommendation (s\<lparr>total_score := 29\<rparr>) = ''ENHANCED_MONITORING''
   \<and> get_recommendation (s\<lparr>total_score := 30\<rparr>) = ''TIER_2_HUMAN_REVIEW''
   \<and> get_recommendation (s\<lparr>total_score := 45\<rparr>) = ''TIER_2_HUMAN_REVIEW''"
  by (simp add: get_recommendation_def tier_rank_def)

theorem get_recommendation_step_witness:
  "total_score (MAIScore_init 5 5 4) \<le> total_score (MAIScore_init 10 10 10)
   \<and> tier_rank (get_recommendation (MAIScore_init 5 5 4)) = Some 0
   \<and> tier_rank (get_recommendation (MAIScore_init 10 10 10)) = Some 2
   \<and> get_recommendation (MAIScore_init 5 5 4) = ''DOCUMENTATION_ONLY''
   \<and> get_recommendation (MAIScore_init 10 10 10) = ''TIER_2_HUMAN_REVIEW''
   \<and> get_recommendation (MAIScore_init 10 5 5) = ''ENHANCED_MONITORING''"
  using get_recommendation_step [of "MAIScore_init 5 5 4"]
        get_recommendation_step [of "MAIScore_init 10 10 10"]
        get_recommendation_step [of "MAIScore_init 10 5 5"]
  by (simp add: MAIScore_init_def tier_rank_def)

subsection \<open>The priority level of a routing decision\<close>

text \<open>
  C2. For every issue and score, the priority level that \<^verbatim>\<open>route_issue\<close> assigns
  is given by the first matching rule: a total of at least 35 together with urgency
  "high" gives P0 - CRITICAL; otherwise a total of at least 25 or urgency "high" gives
  P1 - HIGH; otherwise a total of at least 15 gives P2 - MEDIUM; otherwise P3 - LOW. In
  particular total 36 with urgency "high" gives P0, total 26 with urgency "low" gives
  P1, total 20 with urgency "low" gives P2 and total 5 with urgency "low" gives P3.
\<close>

theorem route_issue_priority_level:
  "(priority_level (route_issue issue mai now) = ''P0 - CRITICAL''
      \<longleftrightarrow> total_score mai \<ge> 35 \<and> urgency issue = ''high'')
   \<and> (priority_level (route_issue issue mai now) = ''P1 - HIGH''
      \<longleftrightarrow> \<not> (total_score mai \<ge> 35 \<and> urgency issue = ''high'')
          \<and> (total_score mai \<ge> 25 \<or> urgency issue = ''high''))
   \<and> (priority_level (route_issue issue mai now) = ''P2 - MEDIUM''
      \<longleftrightarrow> \<not> (total_score mai \<ge> 35 \<and> urgency issue = ''high'')
          \<and> \<not> (total_score mai \<ge> 25 \<or> urgency issue = ''high'')
          \<and> total_score mai \<ge> 15)
   \<and> (priority_level (route_issue issue mai now) = ''P3 - LOW''
      \<longleftrightarrow> \<not> (total_score mai \<ge> 35 \<and> urgency issue = ''high'')
          \<and> \<not> (total_score mai \<ge> 25 \<or> urgency issue = ''high'')
          \<and> \<not> total_score mai \<ge> 15)
   \<and> priority_level (route_issue (issue\<lparr>urgency := ''high''\<rparr>) (mai\<lparr>total_score := 36\<rparr>) now)
       = ''P0 - CRITICAL''
   \<and> priority_level (route_issue (issue\<lparr>urgency := ''low''\<rparr>) (mai\<lparr>total_score := 26\<rparr>) now)
       = ''P1 - HIGH''
   \<and> priority_level (route_issue (issue\<lparr>urgency := ''low''\<rparr>) (mai\<lparr>total_score := 20\<rparr>) now)
       = ''P2 - MEDIUM''
   \<and> priority_level (route_issue (issue\<lparr>urgency := ''low''\<rparr>) (mai\<lparr>total_score := 5\<rparr>) now)
       = ''P3 - LOW''"
  by (simp add: route_issue_def determine_priority_def Let_def)

subsection \<open>The range of the scores\<close>

text \<open>
  C3. For every score that \<^verbatim>\<open>calculate_full_mai_score\<close> produces, whatever the
  collaborator answered or failed to answer for each of the three sub-scores, each
  sub-score lies between 0 and 15, the total is the sum of the three sub-scores, and the
  total lies between 0 and 45.
\<close>

theorem calculate_full_mai_score_range:
  "(let mai = fst (calculate_full_mai_score self issue reply_mission reply_impact reply_risk now)
    in 0 \<le> mission_alignment mai \<and> mission_alignment mai \<le> 15
     \<and> 0 \<le> impact_growth mai \<and> impact_growth mai \<le> 15
     \<and> 0 \<le> risk_evaluation mai \<and> risk_evaluation mai \<le> 15
     \<and> total_score mai = mission_alignment mai + impact_growth mai + risk_evaluation mai
     \<and> 0 \<le> total_score mai \<and> total_score mai \<le> 45)"
  using score_mission_alignment_range [of issue reply_mission]
        score_impact_growth_range [of issue reply_impact]
        score_risk_evaluation_range [of issue reply_risk]
  by (simp add: calculate_full_mai_score_def MAIScore_init_def Let_def)

subsection \<open>The fallback scores\<close>

text \<open>
  C4. When the collaborator fails (its call raises, or its answer has no leading
  integer), the mission alignment sub-score is the minimum of 15 and three times the
  number of the keywords privacy, security, rights, accessibility and ethics that occur
  in the title and content regardless of letter case; the impact sub-score is 5 for
  urgency "low", 10 for "medium" and 15 for "high"; the risk sub-score is 8. For an
  issue whose text contains exactly the keywords privacy and security and whose urgency
  is "high", with all three calls failing, the sub-scores are 6, 15 and 8, the total is
  29 and the recommendation is enhanced monitoring.
\<close>

theorem fallback_scores:
  assumes "try_score reply_mission = None"
    and "try_score reply_impact = None"
    and "try_score reply_risk = None"
  shows "score_mission_alignment issue reply_mission = min (3 * int (card (keyword_hits issue))) 15
    \<and> (urgency issue = ''low'' \<longrightarrow> score_impact_growth issue reply_impact = 5)
    \<and> (urgency issue = ''medium'' \<longrightarrow> score_impact_growth issue reply_impact = 10)
    \<and> (urgency issue = ''high'' \<longrightarrow> score_impact_growth issue reply_impact = 15)
    \<and> score_risk_evaluation issue reply_risk = 8
    \<and> (keyword_hits issue = {''privacy'', ''security''} \<and> urgency issue = ''high'' \<longrightarrow>
         fst (calculate_full_mai_score self issue reply_mission reply_impact reply_risk now)
           = \<lparr>mission_alignment = 6, impact_growth = 15, risk_evaluation = 8, total_score = 29\<rparr>
         \<and> get_recommendation
             (fst (calculate_full_mai_score self issue reply_mission reply_impact reply_risk now))
           = ''ENHANCED_MONITORING'')"
proof -
  have m: "score_mission_alignment issue reply_mission = min (3 * int (card (keyword_hits issue))) 15"
    using assms(1) by (simp add: score_mission_alignment_def fallback_mission_score_hits)
  have i: "score_impact_growth issue reply_impact = fallback_impact_score issue"
    using assms(2) by (simp add: score_impact_growth_def)
  have r: "score_risk_evaluation issue reply_risk = 8"
    using assms(3) by (simp add: score_risk_evaluation_def fallback_risk_score_def)
  have c: "card {''privacy'', ''security''} = 2"
    by simp
  show ?thesis
    using c by (simp add: m i r fallback_impact_score_cases calculate_full_mai_score_def
        MAIScore_init_def get_recommendation_def Let_def)
qed

theorem fallback_scores_witness:
  "try_score None = None \<and> try_score (Some ''n/a'') = None \<and> try_score (Some '' '') = None
   \<and> keyword_hits (example_issue ''high'') = {''privacy'', ''security''}
   \<and> urgency (example_issue ''high'') = ''high''
   \<and> fst (calculate_full_mai_score example_agent (example_issue ''high'')
             None (Some ''n/a'') (Some '' '') 1700000000800000)
       = \<lparr>mission_alignment = 6, impact_growth = 15, risk_evaluation = 8, total_score = 29\<rparr>
   \<and> get_recommendation
        (fst (calculate_full_mai_score example_agent (example_issue ''high'')
                None (Some ''n/a'') (Some '' '') 1700000000800000))
       = ''ENHANCED_MONITORING''
   \<and> urgency (example_issue ''medium'') = ''medium''
   \<and> score_impact_growth (example_issue ''medium'') (Some ''n/a'') = 10
   \<and> urgency (example_issue ''low'') = ''low''
   \<and> score_impact_growth (example_issue ''low'') (Some ''n/a'') = 5"
proof -
  note t = try_score_failures
  note h = keyword_hits_example_issue [of "''high''"]
  note u = urgency_example_issue
  have high: "fst (calculate_full_mai_score example_agent (example_issue ''high'')
                     None (Some ''n/a'') (Some '' '') 1700000000800000)
                = \<lparr>mission_alignment = 6, impact_growth = 15, risk_evaluation = 8, total_score = 29\<rparr>
              \<and> get_recommendation
                   (fst (calculate_full_mai_score example_agent (example_issue ''high'')
                           None (Some ''n/a'') (Some '' '') 1700000000800000))
                = ''ENHANCED_MONITORING''"
    using fallback_scores [OF t, of "example_issue ''high''" example_agent 1700000000800000] h u
    by blast
  have medium: "score_impact_growth (example_issue ''medium'') (Some ''n/a'') = 10"
    using fallback_scores [OF t, of "example_issue ''medium''"] u by blast
  have low: "score_impact_growth (example_issue ''low'') (Some ''n/a'') = 5"
    using fallback_scores [OF t, of "example_issue ''low''"] u by blast
  show ?thesis
    using t h u [of "''high''"] u [of "''medium''"] u [of "''low''"] high medium low by blast
qed

subsection \<open>Conflict detection\<close>

text \<open>
  C5. Conflict detection reports a conflict exactly when the absolute difference between
  the clock and the scheduled item's time is strictly less than 6 hours. The test does
  not depend on the sign of the difference: an item 5 hours 59 minutes ahead and one 5
  hours 59 minutes behind are both in conflict, an item exactly 6 hours away is not. No
  conflict is the ordinary result \<open>None\<close>, not an exception. For the scheduled item
  that \<^verbatim>\<open>detect_channel_conflict\<close> builds, the scheduled time is the first clock
  read plus two hours, and the same holds with the difference taken between that time
  and the second clock read.
\<close>

theorem conflict_with_threshold:
  "(conflict_with sched issue now time_time now_detected \<noteq> None
      \<longleftrightarrow> \<bar>scheduled_time sched - now\<bar> < hours 6)
   \<and> (conflict_with sched issue now time_time now_detected = None
      \<longleftrightarrow> hours 6 \<le> \<bar>scheduled_time sched - now\<bar>)
   \<and> ((conflict_with (sched\<lparr>scheduled_time := now + d\<rparr>) issue now time_time now_detected
          \<noteq> None)
      \<longleftrightarrow> (conflict_with (sched\<lparr>scheduled_time := now - d\<rparr>) issue now time_time now_detected
          \<noteq> None))
   \<and> conflict_with (sched\<lparr>scheduled_time := now + (hours 5 + minutes 59)\<rparr>)
         issue now time_time now_detected \<noteq> None
   \<and> conflict_with (sched\<lparr>scheduled_time := now - (hours 5 + minutes 59)\<rparr>)
         issue now time_time now_detected \<noteq> None
   \<and> conflict_with (sched\<lparr>scheduled_time := now + hours 6\<rparr>)
         issue now time_time now_detected = None
   \<and> conflict_with (sched\<lparr>scheduled_time := now - hours 6\<rparr>)
         issue now time_time now_detected = None
   \<and> (detect_channel_conflict issue now_scheduled now time_time now_detected \<noteq> None
      \<longleftrightarrow> \<bar>now_scheduled + hours 2 - now\<bar> < hours 6)
   \<and> detect_channel_conflict issue now_scheduled (now_scheduled + hours 2 - (hours 5 + minutes 59))
         time_time now_detected \<noteq> None
   \<and> detect_channel_conflict issue now_scheduled (now_scheduled + hours 2 + (hours 5 + minutes 59))
         time_time now_detected \<noteq> None
   \<and> detect_channel_conflict issue now_scheduled (now_scheduled + hours 2 - hours 6)
         time_time now_detected = None
   \<and> detect_channel_conflict issue now_scheduled (now_scheduled + hours 2 + hours 6)
         time_time now_detected = None"
  by (simp add: conflict_with_None detect_channel_conflict_def simulated_schedule_def)
     (auto simp add: hours_def minutes_def)

subsection \<open>Severity and resolution\<close>

text \<open>
  C6. The severity score is 2 if the scheduled item's priority is "high" plus 3 if the
  issue's urgency is "high"; the severity of a conflict is CRITICAL exactly when that
  score is at least 4 and MODERATE otherwise; the resolution's action is
  SEGMENT_AND_STAGGER exactly when the conflict's severity is CRITICAL and
  DELAY_SECONDARY otherwise, each with its fixed rationale.
\<close>

theorem severity_and_resolution:
  "severity_score issue sched
     = (if priority sched = Some ''high'' then 2 else 0) + (if urgency issue = ''high'' then 3 else 0)
   \<and> (assess_conflict_severity issue sched = ''CRITICAL'' \<longleftrightarrow> severity_score issue sched \<ge> 4)
   \<and> (assess_conflict_severity issue sched = ''MODERATE'' \<longleftrightarrow> severity_score issue sched < 4)
   \<and> map_option severity (conflict_with sched issue now time_time now_detected)
       = (if \<bar>scheduled_time sched - now\<bar> < hours 6
          then Some (assess_conflict_severity issue sched) else None)
   \<and> (action (decision (execute_lightning_protocol c now')) = ''SEGMENT_AND_STAGGER''
        \<longleftrightarrow> severity c = ''CRITICAL'')
   \<and> (action (decision (execute_lightning_protocol c now')) = ''DELAY_SECONDARY''
        \<longleftrightarrow> severity c \<noteq> ''CRITICAL'')
   \<and> decision (execute_lightning_protocol (c\<lparr>severity := ''CRITICAL''\<rparr>) now')
       = \<lparr>action = ''SEGMENT_AND_STAGGER'',
          rationale = ''High-priority issue requires immediate response with audience segmentation.''\<rparr>
   \<and> decision (execute_lightning_protocol (c\<lparr>severity := ''MODERATE''\<rparr>) now')
       = \<lparr>action = ''DELAY_SECONDARY'',
          rationale = ''Delay scheduled content to avoid message collision.''\<rparr>
   \<and> rationale (decision (execute_lightning_protocol c now'))
       = (if severity c = ''CRITICAL''
          then ''High-priority issue requires immediate response with audience segmentation.''
          else ''Delay scheduled content to avoid message collision.'')
   \<and> severity_score (issue\<lparr>urgency := ''high''\<rparr>) (sched\<lparr>priority := Some ''high''\<rparr>) = 5
   \<and> assess_conflict_severity (issue\<lparr>urgency := ''high''\<rparr>) (sched\<lparr>priority := Some ''high''\<rparr>) = ''CRITICAL''
   \<and> severity_score (issue\<lparr>urgency := ''low''\<rparr>) (sched\<lparr>priority := Some ''low''\<rparr>) = 0
   \<and> assess_conflict_severity (issue\<lparr>urgency := ''low''\<rparr>) (sched\<lparr>priority := Some ''low''\<rparr>) = ''MODERATE''"
  by (simp add: severity_score_eq assess_conflict_severity_def conflict_with_def time_diff_less_6
      execute_lightning_protocol_def Let_def)


text \<open>
  C9 (as amended). \<^verbatim>\<open>detect_channel_conflict\<close> compares the issue with one
  scheduled item only, which it builds itself: two hours after its first clock read and
  of priority "high". It returns a conflict exactly when its second clock read is less
  than 8 hours after, and less than 4 hours before, the first; in particular when both
  reads give the same instant, and up to one microsecond short of 8 hours. The
  conflict's severity is then CRITICAL exactly when the issue's urgency is "high" and
  MODERATE otherwise. When the clock has advanced by 8 hours or more between the two
  reads, the result is \<open>None\<close>.
\<close>

theorem detect_channel_conflict_clock:
  "(detect_channel_conflict issue now_scheduled now time_time now_detected \<noteq> None
      \<longleftrightarrow> - hours 4 < now - now_scheduled \<and> now - now_scheduled < hours 8)
   \<and> map_option severity (detect_channel_conflict issue now_scheduled now time_time now_detected)
       = (if - hours 4 < now - now_scheduled \<and> now - now_scheduled < hours 8
          then Some (if urgency issue = ''high'' then ''CRITICAL'' else ''MODERATE'')
          else None)
   \<and> map_option conflicting_content
         (detect_channel_conflict issue now_scheduled now time_time now_detected)
       = (if - hours 4 < now - now_scheduled \<and> now - now_scheduled < hours 8
          then Some \<lparr>sc_type = ''fundraising_email'', sc_title = ''Year-end Giving Campaign'',
                      scheduled_time = now_scheduled + hours 2, priority = Some ''high''\<rparr>
          else None)
   \<and> map_option severity (detect_channel_conflict issue now now time_time now_detected)
       = Some (if urgency issue = ''high'' then ''CRITICAL'' else ''MODERATE'')
   \<and> map_option severity
         (detect_channel_conflict issue now_scheduled (now_scheduled + hours 8 - 1)
            time_time now_detected)
       = Some (if urgency issue = ''high'' then ''CRITICAL'' else ''MODERATE'')
   \<and> detect_channel_conflict issue now_scheduled (now_scheduled + hours 8)
         time_time now_detected = None"
proof -
  have sev: "assess_conflict_severity issue (simulated_schedule now_scheduled)
      = (if urgency issue = ''high'' then ''CRITICAL'' else ''MODERATE'')" for now_scheduled
    by (simp add: assess_conflict_severity_def severity_score_eq simulated_schedule_def)
  have det: "detect_channel_conflict issue ns t time_time now_detected
      = (if - hours 4 < t - ns \<and> t - ns < hours 8
         then Some \<lparr>conflict_id = ''conflict_'' @ str_int (int_time time_time),
                     new_issue = issue,
                     conflicting_content = simulated_schedule ns,
                     severity = (if urgency issue = ''high'' then ''CRITICAL'' else ''MODERATE''),
                     detected_at = now_detected\<rparr>
         else None)" for ns t
  proof -
    have "\<bar>scheduled_time (simulated_schedule ns) - t\<bar> < hours 6
        \<longleftrightarrow> - hours 4 < t - ns \<and> t - ns < hours 8"
      by (auto simp add: simulated_schedule_def hours_def)
    then show ?thesis
      by (simp add: detect_channel_conflict_def conflict_with_def time_diff_less_6 sev)
  qed
  have h8: "\<not> (now_scheduled + hours 8 - now_scheduled < hours 8)"
    by simp
  have h7: "- hours 4 < now_scheduled + hours 8 - 1 - now_scheduled
      \<and> now_scheduled + hours 8 - 1 - now_scheduled < hours 8"
    by (simp add: hours_def)
  have h0: "- hours 4 < now - now \<and> now - now < hours 8"
    by (simp add: hours_def)
  show ?thesis
    unfolding det using h8 h7 h0 by (simp add: simulated_schedule_def)
qed

text \<open>
  The claim as stated fails: with the second clock read exactly 8 hours after the first,
  the scheduled item lies 6 hours in the past and the result is \<open>None\<close>, not a
  conflict.
\<close>

theorem detect_channel_conflict_counterexample:
  "detect_channel_conflict (example_issue ''high'')
     1700000000000000 1700028800000000 1700028800000100 1700028800000200 = None"
  by (simp add: detect_channel_conflict_def conflict_with_None simulated_schedule_def hours_def)

subsection \<open>Routing and the clock\<close>

text \<open>
  C7 (as amended). The issue identifier, the total, the routing tier, the priority level
  and the estimated response time of the decision that \<^verbatim>\<open>route_issue\<close> returns are
  determined by the issue and the score alone; the decision's timestamp is the clock
  reading of the call. Two calls with the same issue and score therefore return
  decisions that agree in every field except the timestamp, and nothing but the issue,
  the score and the clock enters the decision.
\<close>

theorem route_issue_up_to_clock:
  "route_issue issue mai now = (route_issue issue mai now')\<lparr>decision_timestamp := now\<rparr>
   \<and> decision_timestamp (route_issue issue mai now) = now
   \<and> rd_issue_id (route_issue issue mai now) = id' issue
   \<and> rd_mai_score (route_issue issue mai now) = total_score mai
   \<and> routing (route_issue issue mai now) = get_recommendation mai
   \<and> priority_level (route_issue issue mai now) = determine_priority mai issue
   \<and> estimated_response_time (route_issue issue mai now)
       = estimate_response_time (get_recommendation mai) (urgency issue)"
  by (simp add: route_issue_def Let_def)


text \<open>
  The claim as stated fails: two calls with the same issue and the same score, made one
  second apart, return different decisions.
\<close>

theorem route_issue_clock_counterexample:
  "route_issue (example_issue ''high'') (MAIScore_init 10 10 10) 1700000001000000
     \<noteq> route_issue (example_issue ''high'') (MAIScore_init 10 10 10) 1700000002000000"
  by (simp add: route_issue_def Let_def)

subsection \<open>Issue identifiers\<close>

text \<open>
  C8. The identifier of an Issue is built from the whole seconds of the clock at
  creation. The monitor's loop over its three samples, with clock reads 100
  microseconds apart, creates three issues with different titles and different
  timestamps that all carry the identifier \<^verbatim>\<open>issue_1700000000\<close>: identifiers of
  distinct issues are not unique.
\<close>

theorem issue_id_collision:
  "map id' (simulate_web_monitoring (\<lambda>k. 1700000000000000 + 100 * int k))
     = [''issue_1700000000'', ''issue_1700000000'', ''issue_1700000000'']
   \<and> distinct (map title (simulate_web_monitoring (\<lambda>k. 1700000000000000 + 100 * int k)))
   \<and> distinct (map timestamp (simulate_web_monitoring (\<lambda>k. 1700000000000000 + 100 * int k)))"
  by (simp add: simulate_web_monitoring_def sample_issues_def is_relevant_issue_def Issue_init_def
      int_time_def str_1700000000)


subsection \<open>Scoring and the issue object\<close>

text \<open>
  C10. Scoring leaves the issue unchanged: after \<^verbatim>\<open>calculate_full_mai_score\<close> the
  issue object is the one that was passed, so for an issue fresh from its constructor
  \<open>mai_score\<close> is still \<open>None\<close> and \<open>status\<close> is still "detected". The computed
  score is returned, and one entry with the issue's identifier, the clock reading, the
  total and the three sub-scores is appended to the agent's decision history; the
  agent's manifesto is unchanged.
\<close>

theorem calculate_full_mai_score_frame:
  "snd (snd (calculate_full_mai_score self issue reply_mission reply_impact reply_risk now)) = issue
   \<and> mai_score (snd (snd (calculate_full_mai_score self
         (Issue_init title_arg content_arg source_arg urgency_arg time_time created)
         reply_mission reply_impact reply_risk now))) = None
   \<and> status (snd (snd (calculate_full_mai_score self
         (Issue_init title_arg content_arg source_arg urgency_arg time_time created)
         reply_mission reply_impact reply_risk now))) = ''detected''
   \<and> manifesto (fst (snd (calculate_full_mai_score self issue reply_mission reply_impact reply_risk now)))
       = manifesto self
   \<and> decision_history (fst (snd (calculate_full_mai_score self issue reply_mission reply_impact reply_risk now)))
       = decision_history self @
           [\<lparr>h_issue_id = id' issue,
             h_timestamp = now,
             h_mai_score = total_score (fst (calculate_full_mai_score self issue reply_mission reply_impact reply_risk now)),
             breakdown =
               \<lparr>mission = mission_alignment (fst (calculate_full_mai_score self issue reply_mission reply_impact reply_risk now)),
                impact = impact_growth (fst (calculate_full_mai_score self issue reply_mission reply_impact reply_risk now)),
                risk = risk_evaluation (fst (calculate_full_mai_score self issue reply_mission reply_impact reply_risk now))\<rparr>\<rparr>]"
  by (simp add: calculate_full_mai_score_def Let_def MAIScore_init_def Issue_init_def)

end
